theory Spec2Isabelle
  imports Complex_Main "HOL-Library.Sublist"
begin

section \<open>Exceptions\<close>

text \<open>
  The Python exceptions that the modelled code raises or catches. A call that can raise
  returns a sum: \<open>Inl\<close> carries the exception, \<open>Inr\<close> the value.
  \<open>OtherException\<close> stands for any further subclass of \<open>Exception\<close>.
\<close>

datatype exn =
    QueueFull
  | QueueEmpty
  | ZeroDivisionError
  | ValueError
  | TimeoutExpired
  | SubprocessError
  | OSError
  | Herror
  | Gaierror
  | SocketTimeout
  | NoSuchProcess
  | AccessDenied
  | OtherException

section \<open>config.py\<close>

definition SNIFFER_QUEUE_SIZE :: int where
  "SNIFFER_QUEUE_SIZE = 1000"

definition MAX_RECENT_PACKETS :: nat where
  "MAX_RECENT_PACKETS = 100"

definition MAX_CACHED_DNS :: nat where
  "MAX_CACHED_DNS = 1000"

definition BATCH_INSERT_SIZE :: nat where
  "BATCH_INSERT_SIZE = 10"

section \<open>packet\_sniffer.py: the capture queue\<close>

text \<open>
  \<open>queue.Queue(maxsize)\<close> as the list of queued items, oldest first. As in the
  standard library, a \<open>maxsize\<close> that is not positive means an unbounded queue.
\<close>

definition put_nowait :: "int \<Rightarrow> 'a \<Rightarrow> 'a list \<Rightarrow> exn + 'a list" where
  "put_nowait maxsize x q =
     (if 0 < maxsize \<and> maxsize \<le> int (length q) then Inl QueueFull else Inr (q @ [x]))"

definition get_nowait :: "'a list \<Rightarrow> exn + ('a \<times> 'a list)" where
  "get_nowait q = (case q of [] \<Rightarrow> Inl QueueEmpty | x # r \<Rightarrow> Inr (x, r))"

text \<open>
  The enqueue path of \<open>PacketSniffer._packet_handler\<close> (the \<open>else\<close> branch, taken when no
  callback is set): \<open>put_nowait\<close>; on \<open>queue.Full\<close> one \<open>get_nowait\<close> and a second
  \<open>put_nowait\<close>, whose \<open>queue.Empty\<close> is passed over. Any other exception reaches the
  handler's outer \<open>except Exception: pass\<close>, which leaves the queue as it is by then.
\<close>

definition enqueue :: "int \<Rightarrow> 'a \<Rightarrow> 'a list \<Rightarrow> 'a list" where
  "enqueue maxsize packet_data q =
     (case put_nowait maxsize packet_data q of
        Inr q' \<Rightarrow> q'
      | Inl e \<Rightarrow>
          if e = QueueFull then
            (case get_nowait q of
               Inl e' \<Rightarrow> q
             | Inr (oldest, q1) \<Rightarrow>
                 (case put_nowait maxsize packet_data q1 of
                    Inr q2 \<Rightarrow> q2
                  | Inl e'' \<Rightarrow> q1))
          else q)"

text \<open>A sequence of pushes, in arrival order.\<close>

definition pushes :: "int \<Rightarrow> 'a list \<Rightarrow> 'a list \<Rightarrow> 'a list" where
  "pushes maxsize q xs = foldl (\<lambda>q x. enqueue maxsize x q) q xs"

section \<open>Python values used by several modules\<close>

text \<open>
  \<open>d.get(key, default)\<close> on a packet dictionary: a field is \<open>None\<close> when the key is
  absent.
\<close>

definition dict_get :: "'a option \<Rightarrow> 'a \<Rightarrow> 'a" where
  "dict_get field dflt = (case field of None \<Rightarrow> dflt | Some v \<Rightarrow> v)"

text \<open>
  A \<open>dict\<close> keeps its keys in insertion order, and that order is visible wherever the code
  iterates or sorts, so a dictionary is an association list with distinct keys.
  \<open>dict_add k v d\<close> is \<open>d[k] += v\<close> on a \<open>defaultdict(int)\<close>; \<open>dict_set k v d\<close> is
  \<open>d[k] = v\<close>.
\<close>

fun dict_add :: "'k \<Rightarrow> int \<Rightarrow> ('k \<times> int) list \<Rightarrow> ('k \<times> int) list" where
  "dict_add k v [] = [(k, 0 + v)]"
| "dict_add k v ((k', w) # d) =
     (if k' = k then (k', w + v) # d else (k', w) # dict_add k v d)"

fun dict_set :: "'k \<Rightarrow> 'v \<Rightarrow> ('k \<times> 'v) list \<Rightarrow> ('k \<times> 'v) list" where
  "dict_set k v [] = [(k, v)]"
| "dict_set k v ((k', w) # d) =
     (if k' = k then (k', v) # d else (k', w) # dict_set k v d)"

text \<open>\<open>deque(maxlen=n).append(x)\<close>: the oldest items fall off the left end.\<close>

definition deque_append :: "nat \<Rightarrow> 'a \<Rightarrow> 'a list \<Rightarrow> 'a list" where
  "deque_append maxlen x d = drop (length (d @ [x]) - maxlen) (d @ [x])"

text \<open>\<open>s.startswith(p)\<close>, and the slices \<open>xs[k:]\<close> and \<open>xs[:k]\<close> for any integer \<open>k\<close>.\<close>

definition startswith :: "string \<Rightarrow> string \<Rightarrow> bool" where
  "startswith s p = prefix p s"

definition slice_from :: "int \<Rightarrow> 'a list \<Rightarrow> 'a list" where
  "slice_from k xs = (if k < 0 then drop (nat (int (length xs) + k)) xs else drop (nat k) xs)"

definition slice_to :: "int \<Rightarrow> 'a list \<Rightarrow> 'a list" where
  "slice_to k xs = (if k < 0 then take (nat (int (length xs) + k)) xs else take (nat k) xs)"

text \<open>
  \<open>sorted(d.items(), key=lambda x: x[1], reverse=True)\<close>: a stable sort by descending
  value.
\<close>

definition sorted_desc :: "('k \<times> int) list \<Rightarrow> ('k \<times> int) list" where
  "sorted_desc items = sort_key (\<lambda>x. - snd x) items"

section \<open>data\_aggregator.py\<close>

text \<open>
  The packet dictionary built by the sniffer and enriched by the monitor. Clock readings
  (\<open>time.time()\<close>) and the rates computed from them are real numbers here: the rounding
  of floating-point arithmetic is not modelled.
\<close>

record packet_dict =
  timestamp :: "real option"
  source_ip :: "string option"
  dest_ip :: "string option"
  protocol :: "string option"
  source_port :: "int option"
  dest_port :: "int option"
  packet_size :: "int option"
  app_name :: "string option"
  pid :: "int option"
  dest_hostname :: "string option"
  category :: "string option"

record bandwidth_sample =
  sample_timestamp :: real
  rate :: real
  upload_rate :: real
  download_rate :: real

record aggregator =
  recent_packets :: "packet_dict list"
  app_bandwidth :: "(string \<times> int) list"
  app_packet_count :: "(string \<times> int) list"
  category_bandwidth :: "(string \<times> int) list"
  bandwidth_history :: "bandwidth_sample list"
  last_rate_calc :: real
  bytes_since_last_calc :: int
  current_rate :: real
  total_upload :: int
  total_download :: int
  total_packets :: int
  start_time :: real
  local_ips :: "string set"

text \<open>
  \<open>DataAggregator.__init__\<close> reads the clock twice: first for \<open>last_rate_calc\<close>, then for
  \<open>start_time\<close>.
\<close>

definition aggregator_init :: "real \<Rightarrow> real \<Rightarrow> aggregator" where
  "aggregator_init t0 t1 =
     \<lparr>recent_packets = [], app_bandwidth = [], app_packet_count = [],
      category_bandwidth = [], bandwidth_history = [], last_rate_calc = t0,
      bytes_since_last_calc = 0, current_rate = 0, total_upload = 0, total_download = 0,
      total_packets = 0, start_time = t1, local_ips = {}\<rparr>"

text \<open>\<open>DataAggregator._is_outgoing\<close>: the answer and the updated aggregator.
  \<open>outgoing_prefix\<close> names its prefix test.\<close>

definition is_outgoing :: "string \<Rightarrow> aggregator \<Rightarrow> bool \<times> aggregator" where
  "is_outgoing ip a =
     (if ip \<in> local_ips a then (True, a)
      else if startswith ip ''192.168.'' \<or> startswith ip ''10.'' \<or> startswith ip ''172.''
      then (True, a\<lparr>local_ips := insert ip (local_ips a)\<rparr>)
      else (False, a))"

definition outgoing_prefix :: "string \<Rightarrow> bool" where
  "outgoing_prefix ip \<longleftrightarrow>
     startswith ip ''192.168.'' \<or> startswith ip ''10.'' \<or> startswith ip ''172.''"

text \<open>
  \<open>DataAggregator.add_packet\<close> in its two parts. \<open>count_packet\<close> is the first: the append
  to the recent-packets ring, the per-application and per-category counters, the packet
  count, the upload/download split and the byte accumulator.
\<close>

definition count_packet :: "packet_dict \<Rightarrow> aggregator \<Rightarrow> aggregator" where
  "count_packet packet_data a =
     (let app = dict_get (app_name packet_data) ''Unknown'';
          size = dict_get (packet_size packet_data) 0;
          cat = dict_get (category packet_data) ''Other'';
          src = dict_get (source_ip packet_data) [];
          (outgoing, a5) =
            is_outgoing src
              (a\<lparr>recent_packets :=
                   deque_append MAX_RECENT_PACKETS packet_data (recent_packets a),
                 app_bandwidth := dict_add app size (app_bandwidth a),
                 app_packet_count := dict_add app 1 (app_packet_count a),
                 category_bandwidth := dict_add cat size (category_bandwidth a),
                 total_packets := total_packets a + 1\<rparr>);
          a6 = (if outgoing then a5\<lparr>total_upload := total_upload a5 + size\<rparr>
                else a5\<lparr>total_download := total_download a5 + size\<rparr>)
      in a6\<lparr>bytes_since_last_calc := bytes_since_last_calc a6 + size\<rparr>)"

text \<open>
  \<open>sample_rate\<close> is the second part, with the clock reading it takes as an argument. The
  division by \<open>current_time - self.start_time\<close> raises \<open>ZeroDivisionError\<close> when the two
  readings are equal; \<open>current_rate\<close> is assigned before that and keeps its new value, so
  the call returns the exception, if any, together with the aggregator it leaves behind.
\<close>

definition sample_rate :: "real \<Rightarrow> aggregator \<Rightarrow> exn option \<times> aggregator" where
  "sample_rate current_time a =
     (if current_time - last_rate_calc a \<ge> 1 then
        (let time_diff = current_time - last_rate_calc a;
             a8 = a\<lparr>current_rate := real_of_int (bytes_since_last_calc a) / time_diff\<rparr>
         in if current_time - start_time a8 = 0 then (Some ZeroDivisionError, a8)
            else (None,
                  a8\<lparr>bandwidth_history :=
                       deque_append 100
                         \<lparr>sample_timestamp = current_time,
                          rate = current_rate a8,
                          upload_rate =
                            real_of_int (total_upload a8) / (current_time - start_time a8),
                          download_rate =
                            real_of_int (total_download a8) / (current_time - start_time a8)\<rparr>
                         (bandwidth_history a8),
                     bytes_since_last_calc := 0,
                     last_rate_calc := current_time\<rparr>))
      else (None, a))"

definition add_packet :: "real \<Rightarrow> packet_dict \<Rightarrow> aggregator \<Rightarrow> exn option \<times> aggregator" where
  "add_packet current_time packet_data a = sample_rate current_time (count_packet packet_data a)"

text \<open>
  A sequence of calls, each with its clock reading. A call that raises leaves its partial
  update in place and the next call goes on from there (the monitor's worker catches the
  exception and continues).
\<close>

definition add_packets :: "(real \<times> packet_dict) list \<Rightarrow> aggregator \<Rightarrow> aggregator" where
  "add_packets calls a = foldl (\<lambda>a (t, p). snd (add_packet t p a)) a calls"

text \<open>The read methods.\<close>

definition get_recent_packets :: "int \<Rightarrow> aggregator \<Rightarrow> packet_dict list" where
  "get_recent_packets limit a =
     (let packets = recent_packets a
      in if int (length packets) > limit then slice_from (- limit) packets else packets)"

definition get_top_apps :: "int \<Rightarrow> aggregator \<Rightarrow> (string \<times> int) list" where
  "get_top_apps limit a = slice_to limit (sorted_desc (app_bandwidth a))"

definition get_bandwidth_by_category :: "aggregator \<Rightarrow> (string \<times> int) list" where
  "get_bandwidth_by_category a = sorted_desc (category_bandwidth a)"

definition get_bandwidth_history :: "aggregator \<Rightarrow> bandwidth_sample list" where
  "get_bandwidth_history a = bandwidth_history a"

record stats =
  stats_total_packets :: int
  stats_total_bandwidth :: int
  stats_total_upload :: int
  stats_total_download :: int
  stats_current_rate :: real
  stats_active_apps :: nat
  stats_uptime :: real
  stats_packets_per_second :: real

definition get_current_stats :: "real \<Rightarrow> aggregator \<Rightarrow> stats" where
  "get_current_stats now a =
     (let uptime = now - start_time a
      in \<lparr>stats_total_packets = total_packets a,
          stats_total_bandwidth = total_upload a + total_download a,
          stats_total_upload = total_upload a,
          stats_total_download = total_download a,
          stats_current_rate = current_rate a,
          stats_active_apps = length (app_bandwidth a),
          stats_uptime = uptime,
          stats_packets_per_second =
            (if uptime > 0 then real_of_int (total_packets a) / uptime else 0)\<rparr>)"

text \<open>\<open>DataAggregator.reset_stats\<close>, with the clock reading it takes.\<close>

definition reset_stats :: "real \<Rightarrow> aggregator \<Rightarrow> aggregator" where
  "reset_stats now a =
     a\<lparr>recent_packets := [], app_bandwidth := [], app_packet_count := [],
       category_bandwidth := [], bandwidth_history := [], total_packets := 0,
       total_upload := 0, total_download := 0, bytes_since_last_calc := 0,
       current_rate := 0, start_time := now\<rparr>"

text \<open>The size a record contributes: \<open>packet_data.get('packet_size', 0)\<close>.\<close>

definition size_of :: "packet_dict \<Rightarrow> int" where
  "size_of packet_data = dict_get (packet_size packet_data) 0"

section \<open>dns\_resolver.py: local addresses\<close>

text \<open>\<open>DNSResolver.is_local_ip\<close>: a prefix test against the listed ranges.\<close>

definition local_prefixes :: "string list" where
  "local_prefixes =
     [''127.'', ''10.'', ''192.168.'', ''172.16.'', ''172.17.'', ''172.18.'', ''172.19.'',
      ''172.20.'', ''172.21.'', ''172.22.'', ''172.23.'', ''172.24.'', ''172.25.'',
      ''172.26.'', ''172.27.'', ''172.28.'', ''172.29.'', ''172.30.'', ''172.31.'',
      ''169.254.'', ''fe80::'', ''::1'']"

fun any_prefix :: "string list \<Rightarrow> string \<Rightarrow> bool" where
  "any_prefix [] ip_address = False"
| "any_prefix (p # ps) ip_address =
     (if startswith ip_address p then True else any_prefix ps ip_address)"

definition is_local_ip :: "string \<Rightarrow> bool" where
  "is_local_ip ip_address = any_prefix local_prefixes ip_address"

text \<open>
  The private IPv4 ranges 10/8, 172.16/12 and 192.168/16 as the specification names them,
  written as prefixes of the dotted form (for comparison with \<open>is_outgoing\<close>).
\<close>

definition private_range_prefixes :: "string list" where
  "private_range_prefixes =
     [''10.'', ''192.168.'', ''172.16.'', ''172.17.'', ''172.18.'', ''172.19.'',
      ''172.20.'', ''172.21.'', ''172.22.'', ''172.23.'', ''172.24.'', ''172.25.'',
      ''172.26.'', ''172.27.'', ''172.28.'', ''172.29.'', ''172.30.'', ''172.31.'']"

definition spec_private_range :: "string \<Rightarrow> bool" where
  "spec_private_range ip = (\<exists>p \<in> set private_range_prefixes. prefix p ip)"

section \<open>packet\_sniffer.py: the packet dictionary\<close>

text \<open>
  The dictionary \<open>_packet_handler\<close> builds for a captured TCP or UDP packet: the seven keys
  of the sniffer, none of the keys the monitor adds later.
\<close>

definition make_packet_data ::
  "real \<Rightarrow> string \<Rightarrow> string \<Rightarrow> string \<Rightarrow> int \<Rightarrow> int \<Rightarrow> int \<Rightarrow> packet_dict" where
  "make_packet_data now src dst proto sport dport packet_len =
     \<lparr>timestamp = Some now, source_ip = Some src, dest_ip = Some dst, protocol = Some proto,
      source_port = Some sport, dest_port = Some dport, packet_size = Some packet_len,
      app_name = None, pid = None, dest_hostname = None, category = None\<rparr>"

section \<open>config.py: the category table\<close>

text \<open>
  \<open>CATEGORY_KEYWORDS\<close>, a \<open>dict\<close> from category to keyword list, in the order it is
  written (the order in which \<open>categorize_domain\<close> iterates over it).
\<close>

definition CATEGORY_KEYWORDS :: "(string \<times> string list) list" where
  "CATEGORY_KEYWORDS =
     [(''Streaming'',
         [''youtube'', ''youtu.be'', ''netflix'', ''hulu'', ''spotify'', ''twitch'',
          ''vimeo'', ''dailymotion'', ''soundcloud'', ''tidal'', ''pandora'',
          ''disneyplus'', ''hbomax'', ''primevideo'', ''appletv'']),
      (''Social Media'',
         [''facebook'', ''fb.com'', ''instagram'', ''twitter'', ''tiktok'',
          ''linkedin'', ''reddit'', ''snapchat'', ''pinterest'', ''whatsapp'',
          ''telegram'', ''discord'', ''slack'']),
      (''Development'',
         [''github'', ''gitlab'', ''bitbucket'', ''stackoverflow'', ''stackexchange'',
          ''npmjs'', ''pypi'', ''docker'', ''kubernetes'', ''jenkins'']),
      (''Cloud Services'',
         [''amazonaws'', ''aws'', ''azure'', ''googlecloud'', ''gcp'',
          ''cloudflare'', ''digitalocean'', ''heroku'', ''vercel'']),
      (''Shopping'',
         [''amazon'', ''ebay'', ''shopify'', ''etsy'', ''walmart'',
          ''alibaba'', ''aliexpress'', ''target'']),
      (''Communication'',
         [''zoom'', ''teams'', ''meet.google'', ''webex'', ''skype'',
          ''gotomeeting'', ''bluejeans'']),
      (''Gaming'',
         [''steam'', ''epicgames'', ''origin'', ''battle.net'', ''playstation'',
          ''xbox'', ''nintendo'', ''twitch'']),
      (''News'',
         [''nytimes'', ''cnn'', ''bbc'', ''reuters'', ''bloomberg'',
          ''theguardian'', ''wsj'', ''washingtonpost'']),
      (''Apple Services'',
         [''apple.com'', ''icloud'', ''itunes'', ''appstore'', ''apple-dns''])]"

definition DNS_TIMEOUT :: nat where
  "DNS_TIMEOUT = 2"

section \<open>dns\_resolver.py: categorize\_domain\<close>

text \<open>
  \<open>str.lower()\<close> on the ASCII letters (host names are ASCII; every other character is
  left as it is), and the substring test \<open>keyword in hostname_lower\<close>.
\<close>

definition lower_char :: "char \<Rightarrow> char" where
  "lower_char c =
     (case map_of (zip ''ABCDEFGHIJKLMNOPQRSTUVWXYZ'' ''abcdefghijklmnopqrstuvwxyz'') c of
        Some d \<Rightarrow> d
      | None \<Rightarrow> c)"

definition lower :: "string \<Rightarrow> string" where
  "lower s = map lower_char s"

fun str_in :: "string \<Rightarrow> string \<Rightarrow> bool" where
  "str_in k [] = (k = [])"
| "str_in k (c # s) = (if startswith (c # s) k then True else str_in k s)"

record resolver =
  category_keywords :: "(string \<times> string list) list"
  timeout :: nat

definition DNSResolver_init :: resolver where
  "DNSResolver_init = \<lparr>category_keywords = CATEGORY_KEYWORDS, timeout = DNS_TIMEOUT\<rparr>"

text \<open>
  The two nested loops of \<open>categorize_domain\<close>: the inner one over the keywords of a
  category, the outer one over the categories; the first hit returns.
\<close>

fun any_keyword :: "string list \<Rightarrow> string \<Rightarrow> bool" where
  "any_keyword [] hostname_lower = False"
| "any_keyword (keyword # keywords) hostname_lower =
     (if str_in keyword hostname_lower then True else any_keyword keywords hostname_lower)"

fun first_category :: "(string \<times> string list) list \<Rightarrow> string \<Rightarrow> string" where
  "first_category [] hostname_lower = ''Other''"
| "first_category ((categ, keywords) # rest) hostname_lower =
     (if any_keyword keywords hostname_lower then categ
      else first_category rest hostname_lower)"

definition categorize_domain :: "resolver \<Rightarrow> string option \<Rightarrow> string" where
  "categorize_domain self hostname =
     (case hostname of
        None \<Rightarrow> ''Other''
      | Some h \<Rightarrow>
          if h = [] then ''Other''
          else first_category (category_keywords self) (lower h))"


section \<open>dns\_resolver.py: resolve\_ip\<close>

text \<open>
  What \<open>socket.gethostbyaddr\<close> does for an address is decided by the network; the model
  takes it as a function from the address to the outcome of the call: the triple
  \<open>(hostname, aliaslist, ipaddrlist)\<close> or the exception raised. The type \<open>exn\<close> holds
  subclasses of \<open>Exception\<close> only; an interrupt of the interpreter
  (\<open>KeyboardInterrupt\<close>, \<open>SystemExit\<close>) is not a lookup outcome and is outside the model.
\<close>

type_synonym hostent = "string \<times> string list \<times> string list"

text \<open>
  The body of \<open>resolve_ip\<close>, under the decorator: the first \<open>except\<close> clause takes the
  three socket errors, the second one every other \<open>Exception\<close>; both return \<open>None\<close>.
\<close>

definition resolve_ip_wrapped ::
  "(string \<Rightarrow> exn + hostent) \<Rightarrow> resolver \<Rightarrow> string \<Rightarrow> exn + string option" where
  "resolve_ip_wrapped gethostbyaddr self ip_address =
     (case gethostbyaddr ip_address of
        Inr (hostname, aliaslist, ipaddrlist) \<Rightarrow> Inr (Some hostname)
      | Inl e \<Rightarrow>
          if e = Herror \<or> e = Gaierror \<or> e = SocketTimeout then Inr None
          else Inr None)"

text \<open>
  \<open>functools.lru_cache(maxsize)\<close> around a function of one key: the cache is the list of
  (key, result) pairs, least recently used first. A hit returns the stored result and
  moves the entry to the recent end; a miss calls the function, and stores the result
  unless the call raised, dropping the least recently used entry of a full cache. With
  \<open>maxsize = 0\<close> nothing is stored.
\<close>

definition lru_cache ::
  "nat \<Rightarrow> ('k \<Rightarrow> exn + 'v) \<Rightarrow> 'k \<Rightarrow> ('k \<times> 'v) list \<Rightarrow> (exn + 'v) \<times> ('k \<times> 'v) list" where
  "lru_cache maxsize f key cache =
     (if maxsize = 0 then (f key, cache)
      else
        (case map_of cache key of
           Some result \<Rightarrow> (Inr result, filter (\<lambda>kv. fst kv \<noteq> key) cache @ [(key, result)])
         | None \<Rightarrow>
             (case f key of
                Inl e \<Rightarrow> (Inl e, cache)
              | Inr result \<Rightarrow>
                  (Inr result,
                   (if maxsize \<le> length cache then tl cache else cache) @ [(key, result)]))))"

text \<open>
  \<open>resolve_ip\<close> as the callers see it: the decorated method, for one resolver object,
  with the cache passed in and returned.
\<close>

definition resolve_ip ::
  "(string \<Rightarrow> exn + hostent) \<Rightarrow> resolver \<Rightarrow> string \<Rightarrow> (string \<times> string option) list
     \<Rightarrow> (exn + string option) \<times> (string \<times> string option) list" where
  "resolve_ip gethostbyaddr self ip_address cache =
     lru_cache MAX_CACHED_DNS (resolve_ip_wrapped gethostbyaddr self) ip_address cache"

text \<open>A run of calls, threading the cache; the results in call order.\<close>

fun resolve_ips ::
  "(string \<Rightarrow> exn + hostent) \<Rightarrow> resolver \<Rightarrow> string list \<Rightarrow> (string \<times> string option) list
     \<Rightarrow> (exn + string option) list" where
  "resolve_ips gethostbyaddr self [] cache = []"
| "resolve_ips gethostbyaddr self (ip_address # rest) cache =
     (case resolve_ip gethostbyaddr self ip_address cache of
        (result, cache') \<Rightarrow> result # resolve_ips gethostbyaddr self rest cache')"

section \<open>database.py: get\_top\_apps\_by\_bandwidth\<close>







section \<open>process\_mapper.py\<close>

text \<open>
  Truth values of Python objects, as \<open>if x:\<close> tests them: \<open>None\<close>, the integer \<open>0\<close> and
  the empty string are false.
\<close>

definition truthy_int :: "int option \<Rightarrow> bool" where
  "truthy_int x = (case x of None \<Rightarrow> False | Some n \<Rightarrow> n \<noteq> 0)"

definition truthy_str :: "string option \<Rightarrow> bool" where
  "truthy_str x = (case x of None \<Rightarrow> False | Some s \<Rightarrow> s \<noteq> [])"

text \<open>
  What \<open>psutil\<close> reports. Of a connection the code reads \<open>laddr\<close>, \<open>raddr\<close> (an address, or
  the empty tuple, here \<open>None\<close>) and \<open>pid\<close>. One view of the system is the outcome of
  \<open>psutil.net_connections(kind='inet')\<close> together with, for every pid, the outcome of
  \<open>psutil.Process(pid).name()\<close>.
\<close>

record addr =
  addr_ip :: string
  addr_port :: int

record sconn =
  laddr :: "addr option"
  raddr :: "addr option"
  sconn_pid :: "int option"

record psutil_view =
  net_connections :: "exn + sconn list"
  process_name :: "int \<Rightarrow> exn + string"

text \<open>
  The connection cache: a \<open>dict\<close> from \<open>(local_port, remote_ip, remote_port)\<close> to
  \<open>(pid, process_name)\<close>, in insertion order.
\<close>

type_synonym conn_key = "int \<times> string \<times> int"

type_synonym conn_cache = "(conn_key \<times> int \<times> string) list"

record mapper =
  connection_cache :: conn_cache
  refresh_counter :: int
  refresh_interval :: int


text \<open>
  The loop of \<open>_refresh_connections\<close>. A connection without remote address is skipped; so
  is one whose local port, remote address or pid is missing or false. \<open>NoSuchProcess\<close> and
  \<open>AccessDenied\<close> from the name lookup skip the connection; any other exception leaves
  the loop through the outer \<open>except Exception: pass\<close>, and the entries collected so far
  are returned.
\<close>

fun refresh_loop :: "(int \<Rightarrow> exn + string) \<Rightarrow> sconn list \<Rightarrow> conn_cache \<Rightarrow> conn_cache" where
  "refresh_loop name_of [] connections = connections"
| "refresh_loop name_of (conn # rest) connections =
     (case raddr conn of
        None \<Rightarrow> refresh_loop name_of rest connections
      | Some ra \<Rightarrow>
          (case (laddr conn, sconn_pid conn) of
             (Some la, Some p) \<Rightarrow>
               if addr_port la \<noteq> 0 \<and> addr_ip ra \<noteq> [] \<and> p \<noteq> 0 then
                 (case name_of p of
                    Inr name \<Rightarrow>
                      refresh_loop name_of rest
                        (dict_set (addr_port la, addr_ip ra, addr_port ra) (p, name) connections)
                  | Inl e \<Rightarrow>
                      if e = NoSuchProcess \<or> e = AccessDenied
                      then refresh_loop name_of rest connections
                      else connections)
               else refresh_loop name_of rest connections
           | _ \<Rightarrow> refresh_loop name_of rest connections))"

definition refresh_connections :: "psutil_view \<Rightarrow> conn_cache" where
  "refresh_connections v =
     (case net_connections v of
        Inl e \<Rightarrow> []
      | Inr conns \<Rightarrow> refresh_loop (process_name v) conns [])"

text \<open>
  \<open>_find_process_with_lsof\<close>. The outcome of \<open>subprocess.run\<close> for a port is the
  completed process or the exception raised. The output is stripped of white space at
  both ends and split at the newlines; a line \<open>p...\<close> sets the pid through \<open>int\<close>, the first
  line \<open>c...\<close> sets the name and ends the loop.
\<close>

record completed_process =
  returncode :: int
  stdout :: string

definition is_space :: "char \<Rightarrow> bool" where
  "is_space c \<longleftrightarrow>
     c \<in> set [CHR '' '', CHR 0x09, CHR 0x0A, CHR 0x0B, CHR 0x0C, CHR 0x0D,
              CHR 0x1C, CHR 0x1D, CHR 0x1E, CHR 0x1F]"

definition strip :: "string \<Rightarrow> string" where
  "strip s = rev (dropWhile is_space (rev (dropWhile is_space s)))"

fun split_nl :: "string \<Rightarrow> string list" where
  "split_nl [] = [[]]"
| "split_nl (c # s) =
     (if c = CHR 0x0A then [] # split_nl s
      else (case split_nl s of
              [] \<Rightarrow> [[c]]
            | l # ls \<Rightarrow> (c # l) # ls))"

text \<open>
  \<open>int(s)\<close> on a string: white space around, an optional sign, then decimal digits, where
  single underscores may stand between digits; anything else is a \<open>ValueError\<close>.
\<close>

definition digit_of :: "char \<Rightarrow> int option" where
  "digit_of c = map_of (zip ''0123456789'' [0, 1, 2, 3, 4, 5, 6, 7, 8, 9]) c"

fun more_digits :: "string \<Rightarrow> int \<Rightarrow> int option" where
  "more_digits [] acc = Some acc"
| "more_digits [c] acc =
     (case digit_of c of None \<Rightarrow> None | Some v \<Rightarrow> Some (10 * acc + v))"
| "more_digits (c # d # s) acc =
     (if c = CHR ''_'' then
        (case digit_of d of None \<Rightarrow> None | Some v \<Rightarrow> more_digits s (10 * acc + v))
      else
        (case digit_of c of None \<Rightarrow> None | Some v \<Rightarrow> more_digits (d # s) (10 * acc + v)))"

definition unsigned_int :: "string \<Rightarrow> int option" where
  "unsigned_int s =
     (case s of
        [] \<Rightarrow> None
      | c # r \<Rightarrow> (case digit_of c of None \<Rightarrow> None | Some v \<Rightarrow> more_digits r v))"

definition py_int :: "string \<Rightarrow> exn + int" where
  "py_int s =
     (case (case strip s of
              [] \<Rightarrow> None
            | c # r \<Rightarrow>
                if c = CHR ''-'' then map_option uminus (unsigned_int r)
                else if c = CHR ''+'' then unsigned_int r
                else unsigned_int (c # r)) of
        None \<Rightarrow> Inl ValueError
      | Some n \<Rightarrow> Inr n)"

fun parse_lsof_lines ::
  "string list \<Rightarrow> int option \<Rightarrow> string option \<Rightarrow> exn + (int option \<times> string option)" where
  "parse_lsof_lines [] pid_found name_found = Inr (pid_found, name_found)"
| "parse_lsof_lines (line # lines) pid_found name_found =
     (if startswith line ''p'' then
        (case py_int (tl line) of
           Inl e \<Rightarrow> Inl e
         | Inr n \<Rightarrow> parse_lsof_lines lines (Some n) name_found)
      else if startswith line ''c'' then Inr (pid_found, Some (tl line))
      else parse_lsof_lines lines pid_found name_found)"

text \<open>The \<open>try\<close> block: \<open>Inr None\<close> when it falls through to the final \<open>return None, None\<close>.\<close>

definition lsof_try ::
  "(int \<Rightarrow> exn + completed_process) \<Rightarrow> int \<Rightarrow> exn + (int \<times> string) option" where
  "lsof_try run_lsof port =
     (case run_lsof port of
        Inl e \<Rightarrow> Inl e
      | Inr result \<Rightarrow>
          if returncode result = 0 \<and> stdout result \<noteq> [] then
            (case parse_lsof_lines (split_nl (strip (stdout result))) None None of
               Inl e \<Rightarrow> Inl e
             | Inr (pid_found, name_found) \<Rightarrow>
                 (case (pid_found, name_found) of
                    (Some p, Some name) \<Rightarrow> if p \<noteq> 0 \<and> name \<noteq> [] then Inr (Some (p, name)) else Inr None
                  | _ \<Rightarrow> Inr None))
          else Inr None)"

text \<open>
  The \<open>except\<close> clause names \<open>TimeoutExpired\<close>, \<open>SubprocessError\<close> and \<open>ValueError\<close>; any
  other exception of the \<open>try\<close> block goes on to the caller.
\<close>

definition find_process_with_lsof ::
  "(int \<Rightarrow> exn + completed_process) \<Rightarrow> int \<Rightarrow> exn + (int option \<times> string option)" where
  "find_process_with_lsof run_lsof port =
     (case lsof_try run_lsof port of
        Inr (Some (p, name)) \<Rightarrow> Inr (Some p, Some name)
      | Inr None \<Rightarrow> Inr (None, None)
      | Inl e \<Rightarrow>
          if e = TimeoutExpired \<or> e = SubprocessError \<or> e = ValueError then Inr (None, None)
          else Inl e)"

text \<open>
  \<open>find_process_by_port\<close>, in the order of the source: the counter and the periodic
  refresh, the refresh of an empty cache, the exact key, the scan by local port, the
  \<open>lsof\<close> fallback. \<open>views k\<close> is what \<open>psutil\<close> reports at the \<open>k\<close>-th refresh of the call
  (there are at most two).
\<close>

definition periodic_refresh :: "(nat \<Rightarrow> psutil_view) \<Rightarrow> mapper \<Rightarrow> mapper \<times> nat" where
  "periodic_refresh views self =
     (if refresh_interval self \<le> refresh_counter self + 1
      then (self\<lparr>connection_cache := refresh_connections (views 0), refresh_counter := 0\<rparr>, 1)
      else (self\<lparr>refresh_counter := refresh_counter self + 1\<rparr>, 0))"

definition refresh_if_empty :: "psutil_view \<Rightarrow> mapper \<Rightarrow> mapper" where
  "refresh_if_empty v self =
     (if connection_cache self = [] then self\<lparr>connection_cache := refresh_connections v\<rparr>
      else self)"

definition exact_match ::
  "int \<Rightarrow> string option \<Rightarrow> int option \<Rightarrow> conn_cache \<Rightarrow> (int \<times> string) option" where
  "exact_match local_port remote_ip remote_port cache =
     (case (remote_ip, remote_port) of
        (Some r_ip, Some r_port) \<Rightarrow>
          if r_ip \<noteq> [] \<and> r_port \<noteq> 0 then map_of cache (local_port, r_ip, r_port) else None
      | _ \<Rightarrow> None)"

definition port_match :: "int \<Rightarrow> conn_cache \<Rightarrow> (int \<times> string) option" where
  "port_match local_port cache =
     map_option snd (find (\<lambda>entry. fst (fst entry) = local_port) cache)"

definition cache_or_lsof ::
  "(int \<Rightarrow> exn + completed_process) \<Rightarrow> int \<Rightarrow> string option \<Rightarrow> int option \<Rightarrow> conn_cache
     \<Rightarrow> exn + (int option \<times> string option)" where
  "cache_or_lsof run_lsof local_port remote_ip remote_port cache =
     (case exact_match local_port remote_ip remote_port cache of
        Some (p, name) \<Rightarrow> Inr (Some p, Some name)
      | None \<Rightarrow>
          (case port_match local_port cache of
             Some (p, name) \<Rightarrow> Inr (Some p, Some name)
           | None \<Rightarrow> find_process_with_lsof run_lsof local_port))"

definition find_process_by_port ::
  "(nat \<Rightarrow> psutil_view) \<Rightarrow> (int \<Rightarrow> exn + completed_process) \<Rightarrow> int \<Rightarrow> string option
     \<Rightarrow> int option \<Rightarrow> mapper \<Rightarrow> (exn + (int option \<times> string option)) \<times> mapper" where
  "find_process_by_port views run_lsof local_port remote_ip remote_port self =
     (case periodic_refresh views self of
        (self1, used) \<Rightarrow>
          (case refresh_if_empty (views used) self1 of
             self2 \<Rightarrow>
               (cache_or_lsof run_lsof local_port remote_ip remote_port (connection_cache self2),
                self2)))"
section \<open>Capture queue: properties\<close>

lemma enqueue_not_full:
  "int (length q) < C \<Longrightarrow> enqueue C x q = q @ [x]"
  by (simp add: enqueue_def put_nowait_def)

lemma enqueue_full:
  assumes "0 < C" and "int (length q) = C"
  shows "enqueue C x q = tl q @ [x]"
proof -
  from assms obtain y r where q: "q = y # r"
    by (cases q) auto
  with assms show ?thesis
    by (simp add: enqueue_def put_nowait_def get_nowait_def)
qed

lemma pushes_snoc: "pushes C q (xs @ [x]) = enqueue C x (pushes C q xs)"
  by (simp add: pushes_def)

lemma tl_drop_Suc: "tl (drop n ys) = drop (Suc n) ys"
  by (simp only: drop_Suc tl_drop)

lemma enqueue_drop:
  assumes "0 < C"
  shows "enqueue C x (drop (length ys - nat C) ys) =
         drop (length (ys @ [x]) - nat C) (ys @ [x])"
proof (cases "int (length ys) < C")
  case True
  then have "enqueue C x ys = ys @ [x]"
    by (rule enqueue_not_full)
  with True show ?thesis by simp
next
  case False
  let ?r = "drop (length ys - nat C) ys"
  from False assms have len: "int (length ?r) = C" by simp
  have "enqueue C x ?r = tl ?r @ [x]"
    using assms len by (rule enqueue_full)
  also have "tl ?r = drop (Suc (length ys - nat C)) ys"
    by (rule tl_drop_Suc)
  also have "\<dots> @ [x] = drop (Suc (length ys - nat C)) (ys @ [x])"
    using False assms by simp
  also have "Suc (length ys - nat C) = length (ys @ [x]) - nat C"
    using False assms by simp
  finally show ?thesis .
qed

lemma pushes_latest:
  assumes "0 < C" and "int (length q) \<le> C"
  shows "pushes C q xs = drop (length (q @ xs) - nat C) (q @ xs)"
proof (induction xs rule: rev_induct)
  case Nil
  from assms show ?case by (simp add: pushes_def)
next
  case (snoc x xs)
  have "pushes C q (xs @ [x]) = enqueue C x (drop (length (q @ xs) - nat C) (q @ xs))"
    by (simp only: pushes_snoc snoc.IH)
  also have "\<dots> = drop (length ((q @ xs) @ [x]) - nat C) ((q @ xs) @ [x])"
    using assms(1) by (rule enqueue_drop)
  finally show ?case by (simp only: append_assoc)
qed

text \<open>
  C1. In a capture queue of capacity \<open>C\<close> (a positive \<open>maxsize\<close>), starting empty, every
  sequence of pushes leaves at most \<open>C\<close> queued events; a push onto a full queue evicts
  exactly the oldest event and appends the new one; and after \<open>C\<close> or more pushes the queue
  is exactly the last \<open>C\<close> pushed events in arrival order.
\<close>

theorem C1_capture_queue_drop_oldest:
  assumes "0 < C"
  shows "length (pushes C [] xs) \<le> nat C
       \<and> (int (length q) = C \<longrightarrow> enqueue C x q = tl q @ [x])
       \<and> (nat C \<le> length xs \<longrightarrow>
            pushes C [] xs = drop (length xs - nat C) xs \<and> length (pushes C [] xs) = nat C)"
proof -
  have eq: "pushes C [] xs = drop (length xs - nat C) xs"
    using pushes_latest [of C "[]" xs] assms by simp
  have full: "int (length q) = C \<longrightarrow> enqueue C x q = tl q @ [x]"
    using assms by (simp add: enqueue_full)
  show ?thesis
    using full unfolding eq by simp
qed

theorem C1_capture_queue_witness:
  "(0::int) < 2
   \<and> length (pushes 2 [] [1, 2, 3 :: nat]) \<le> nat 2
   \<and> enqueue 2 (3::nat) [1, 2] = [2, 3]
   \<and> pushes 2 [] [1, 2, 3 :: nat] = [2, 3]"
  using C1_capture_queue_drop_oldest [of 2 "[1, 2, 3 :: nat]" "[1, 2 :: nat]" 3]
  by simp

section \<open>Aggregator: properties\<close>

lemma sum_dict_add: "sum_list (map snd (dict_add k v d)) = sum_list (map snd d) + v"
  by (induction d) auto

text \<open>What \<open>_is_outgoing\<close> computes.\<close>

lemma is_outgoing_eq:
  "is_outgoing ip a =
     (ip \<in> local_ips a \<or> outgoing_prefix ip,
      a\<lparr>local_ips := (if outgoing_prefix ip then insert ip (local_ips a) else local_ips a)\<rparr>)"
  by (simp add: is_outgoing_def outgoing_prefix_def insert_absorb)

lemma is_outgoing_answer:
  "fst (is_outgoing ip a) \<longleftrightarrow> ip \<in> local_ips a \<or> outgoing_prefix ip"
  by (simp add: is_outgoing_eq)

text \<open>The counters after each part of \<open>add_packet\<close>, and after the whole call.\<close>

lemma sample_rate_fields:
  "app_bandwidth (snd (sample_rate t a)) = app_bandwidth a"
  "total_packets (snd (sample_rate t a)) = total_packets a"
  "total_upload (snd (sample_rate t a)) = total_upload a"
  "total_download (snd (sample_rate t a)) = total_download a"
  "local_ips (snd (sample_rate t a)) = local_ips a"
  by (simp_all add: sample_rate_def Let_def)

lemma count_packet_fields:
  "app_bandwidth (count_packet p a) =
     dict_add (dict_get (app_name p) ''Unknown'') (size_of p) (app_bandwidth a)"
  "total_packets (count_packet p a) = total_packets a + 1"
  "total_upload (count_packet p a) =
     (if fst (is_outgoing (dict_get (source_ip p) []) a) then total_upload a + size_of p
      else total_upload a)"
  "total_download (count_packet p a) =
     (if fst (is_outgoing (dict_get (source_ip p) []) a) then total_download a
      else total_download a + size_of p)"
  "local_ips (count_packet p a) =
     (if outgoing_prefix (dict_get (source_ip p) []) then
        insert (dict_get (source_ip p) []) (local_ips a)
      else local_ips a)"
  by (simp_all add: count_packet_def size_of_def Let_def is_outgoing_eq)

lemma add_packet_fields:
  "app_bandwidth (snd (add_packet t p a)) =
     dict_add (dict_get (app_name p) ''Unknown'') (size_of p) (app_bandwidth a)"
  "total_packets (snd (add_packet t p a)) = total_packets a + 1"
  "total_upload (snd (add_packet t p a)) =
     (if fst (is_outgoing (dict_get (source_ip p) []) a) then total_upload a + size_of p
      else total_upload a)"
  "total_download (snd (add_packet t p a)) =
     (if fst (is_outgoing (dict_get (source_ip p) []) a) then total_download a
      else total_download a + size_of p)"
  "local_ips (snd (add_packet t p a)) =
     (if outgoing_prefix (dict_get (source_ip p) []) then
        insert (dict_get (source_ip p) []) (local_ips a)
      else local_ips a)"
  unfolding add_packet_def sample_rate_fields by (fact count_packet_fields)+

lemma add_packet_totals:
  "total_upload (snd (add_packet t p a)) + total_download (snd (add_packet t p a))
     = total_upload a + total_download a + size_of p"
  by (simp add: add_packet_fields)

lemma add_packet_app_sum:
  "sum_list (map snd (app_bandwidth (snd (add_packet t p a))))
     = sum_list (map snd (app_bandwidth a)) + size_of p"
  by (simp add: add_packet_fields sum_dict_add)

lemma add_packet_count:
  "total_packets (snd (add_packet t p a)) = total_packets a + 1"
  by (simp add: add_packet_fields)

lemma add_packets_snoc:
  "add_packets (calls @ [(t, p)]) a = snd (add_packet t p (add_packets calls a))"
  by (simp add: add_packets_def)

lemma add_packets_sums:
  "total_upload (add_packets calls a) + total_download (add_packets calls a)
     = total_upload a + total_download a + (\<Sum>c\<leftarrow>calls. size_of (snd c))
   \<and> sum_list (map snd (app_bandwidth (add_packets calls a)))
     = sum_list (map snd (app_bandwidth a)) + (\<Sum>c\<leftarrow>calls. size_of (snd c))
   \<and> total_packets (add_packets calls a) = total_packets a + int (length calls)"
proof (induction calls rule: rev_induct)
  case Nil
  show ?case by (simp add: add_packets_def)
next
  case (snoc c calls)
  obtain t p where c: "c = (t, p)" by (cases c)
  show ?case
    using snoc.IH
    by (simp add: c add_packets_snoc add_packet_totals add_packet_app_sum add_packet_count)
qed

text \<open>
  C2. After any sequence of calls to \<open>add_packet\<close> on a freshly constructed aggregator,
  with records whose packet sizes sum to \<open>S\<close>, \<open>get_current_stats()['total_bandwidth']\<close>
  (the sum of \<open>total_upload\<close> and \<open>total_download\<close>) is \<open>S\<close>, and so is the sum of
  \<open>app_bandwidth\<close> over all applications.
\<close>

theorem C2_total_bandwidth_is_sum_of_sizes:
  "stats_total_bandwidth (get_current_stats now (add_packets calls (aggregator_init t0 t1)))
     = (\<Sum>c\<leftarrow>calls. size_of (snd c))
   \<and> total_upload (add_packets calls (aggregator_init t0 t1))
     + total_download (add_packets calls (aggregator_init t0 t1))
     = (\<Sum>c\<leftarrow>calls. size_of (snd c))
   \<and> sum_list (map snd (app_bandwidth (add_packets calls (aggregator_init t0 t1))))
     = (\<Sum>c\<leftarrow>calls. size_of (snd c))"
  using add_packets_sums [of calls "aggregator_init t0 t1"]
  by (simp add: get_current_stats_def aggregator_init_def Let_def)

lemma keys_dict_add: "fst ` set (dict_add k v d) = insert k (fst ` set d)"
  by (induction d) force+

lemma distinct_dict_add:
  "distinct (map fst d) \<Longrightarrow> distinct (map fst (dict_add k v d))"
  by (induction d) (auto simp: keys_dict_add)

lemma add_packets_apps_distinct:
  "distinct (map fst (app_bandwidth a)) \<Longrightarrow>
   distinct (map fst (app_bandwidth (add_packets calls a)))"
proof (induction calls rule: rev_induct)
  case Nil
  then show ?case by (simp add: add_packets_def)
next
  case (snoc c calls)
  obtain t p where c: "c = (t, p)" by (cases c)
  have step: "distinct (map fst (app_bandwidth b)) \<Longrightarrow>
              distinct (map fst (app_bandwidth (snd (add_packet t p b))))" for b
    by (simp add: add_packet_fields distinct_dict_add)
  from snoc show ?case
    by (simp add: c add_packets_snoc step)
qed

lemma add_packets_local_ips_prefixed:
  "\<forall>ip \<in> local_ips a. outgoing_prefix ip \<Longrightarrow>
   \<forall>ip \<in> local_ips (add_packets calls a). outgoing_prefix ip"
proof (induction calls rule: rev_induct)
  case Nil
  then show ?case by (simp add: add_packets_def)
next
  case (snoc c calls)
  obtain t p where c: "c = (t, p)" by (cases c)
  from snoc show ?case
    by (simp add: c add_packets_snoc add_packet_fields)
qed

lemma spec_private_range_outgoing:
  assumes "spec_private_range ip"
  shows "fst (is_outgoing ip a)"
proof -
  from assms obtain p where p: "p \<in> set private_range_prefixes" and ip: "prefix p ip"
    unfolding spec_private_range_def by blast
  from p have "prefix ''10.'' p \<or> prefix ''192.168.'' p \<or> prefix ''172.'' p"
    unfolding private_range_prefixes_def by auto
  with ip have "prefix ''10.'' ip \<or> prefix ''192.168.'' ip \<or> prefix ''172.'' ip"
    by (blast intro: prefix_order.trans)
  then show ?thesis
    unfolding is_outgoing_answer outgoing_prefix_def startswith_def by blast
qed

text \<open>
  C3 (the code at the failing input). A packet whose source is the public address
  172.217.0.1, which lies in none of the private ranges 10/8, 172.16/12, 192.168/16 and
  has not been seen before, is counted by \<open>add_packet\<close> as upload, not as download: the
  prefix test of \<open>_is_outgoing\<close> is \<open>'172.'\<close>, where \<open>is_local_ip\<close> lists \<open>'172.16.'\<close> to
  \<open>'172.31.'\<close>.
\<close>

theorem C3_public_172_source_counted_as_upload:
  "\<not> spec_private_range ''172.217.0.1''
   \<and> \<not> is_local_ip ''172.217.0.1''
   \<and> ''172.217.0.1'' \<notin> local_ips (aggregator_init 0 0)
   \<and> fst (is_outgoing ''172.217.0.1'' (aggregator_init 0 0))
   \<and> total_upload (snd (add_packet (1/2)
        (make_packet_data (1/2) ''172.217.0.1'' ''192.168.1.5'' ''TCP'' 443 50000 1500)
        (aggregator_init 0 0))) = 1500
   \<and> total_download (snd (add_packet (1/2)
        (make_packet_data (1/2) ''172.217.0.1'' ''192.168.1.5'' ''TCP'' 443 50000 1500)
        (aggregator_init 0 0))) = 0"
  by (simp add: add_packet_fields is_outgoing_answer outgoing_prefix_def startswith_def
        dict_get_def size_of_def make_packet_data_def aggregator_init_def
        spec_private_range_def private_range_prefixes_def is_local_ip_def local_prefixes_def)

text \<open>
  C8. After \<open>reset_stats()\<close>, whatever was recorded before, \<open>get_current_stats\<close> reports zero
  packets, bandwidth, upload, download, rate, active applications and packets per second,
  with an uptime counted from the reset; \<open>get_top_apps\<close>, \<open>get_bandwidth_by_category\<close>,
  \<open>get_bandwidth_history\<close> and \<open>get_recent_packets\<close> return empty lists; and \<open>start_time\<close> is
  the time of the reset.
\<close>

theorem C8_reset_then_reads_are_empty:
  "get_current_stats now (reset_stats t a) =
     \<lparr>stats_total_packets = 0, stats_total_bandwidth = 0, stats_total_upload = 0,
      stats_total_download = 0, stats_current_rate = 0, stats_active_apps = 0,
      stats_uptime = now - t, stats_packets_per_second = 0\<rparr>
   \<and> get_top_apps n (reset_stats t a) = []
   \<and> get_bandwidth_by_category (reset_stats t a) = []
   \<and> get_bandwidth_history (reset_stats t a) = []
   \<and> get_recent_packets m (reset_stats t a) = []
   \<and> start_time (reset_stats t a) = t"
  by (simp add: get_current_stats_def reset_stats_def get_top_apps_def
        get_bandwidth_by_category_def get_bandwidth_history_def get_recent_packets_def
        sorted_desc_def slice_to_def slice_from_def Let_def)

text \<open>
  C10. \<open>reset_stats()\<close> leaves \<open>local_ips\<close> and \<open>last_rate_calc\<close> as they were while zeroing
  every counter and emptying every ring; so a source address that was in \<open>local_ips\<close>
  before the reset is still answered from that set afterwards, and the next packet from
  it is counted as upload.
\<close>

theorem C10_reset_keeps_local_ips_and_rate_clock:
  "local_ips (reset_stats t a) = local_ips a
   \<and> last_rate_calc (reset_stats t a) = last_rate_calc a
   \<and> recent_packets (reset_stats t a) = [] \<and> app_bandwidth (reset_stats t a) = []
   \<and> app_packet_count (reset_stats t a) = [] \<and> category_bandwidth (reset_stats t a) = []
   \<and> bandwidth_history (reset_stats t a) = [] \<and> total_packets (reset_stats t a) = 0
   \<and> total_upload (reset_stats t a) = 0 \<and> total_download (reset_stats t a) = 0
   \<and> bytes_since_last_calc (reset_stats t a) = 0 \<and> current_rate (reset_stats t a) = 0
   \<and> (ip \<in> local_ips a \<longrightarrow> source_ip p = Some ip \<longrightarrow>
        fst (is_outgoing ip (reset_stats t a))
        \<and> total_upload (snd (add_packet t' p (reset_stats t a))) = size_of p
        \<and> total_download (snd (add_packet t' p (reset_stats t a))) = 0)"
  by (simp add: add_packet_fields is_outgoing_answer reset_stats_def dict_get_def)

theorem C10_reset_keeps_local_ips_witness:
  "''10.0.0.5'' \<in> local_ips (snd (add_packet 1
        (make_packet_data 1 ''10.0.0.5'' ''8.8.8.8'' ''UDP'' 5353 53 100) (aggregator_init 0 0)))
   \<and> source_ip (make_packet_data 7 ''10.0.0.5'' ''8.8.8.8'' ''UDP'' 5353 53 40) = Some ''10.0.0.5''
   \<and> local_ips (reset_stats 5 (snd (add_packet 1
        (make_packet_data 1 ''10.0.0.5'' ''8.8.8.8'' ''UDP'' 5353 53 100) (aggregator_init 0 0))))
       = {''10.0.0.5''}
   \<and> total_upload (snd (add_packet 7
        (make_packet_data 7 ''10.0.0.5'' ''8.8.8.8'' ''UDP'' 5353 53 40)
        (reset_stats 5 (snd (add_packet 1
           (make_packet_data 1 ''10.0.0.5'' ''8.8.8.8'' ''UDP'' 5353 53 100)
           (aggregator_init 0 0)))))) = 40"
  using C10_reset_keeps_local_ips_and_rate_clock
    [of 5 "snd (add_packet 1
        (make_packet_data 1 ''10.0.0.5'' ''8.8.8.8'' ''UDP'' 5353 53 100) (aggregator_init 0 0))"
        "''10.0.0.5''" "make_packet_data 7 ''10.0.0.5'' ''8.8.8.8'' ''UDP'' 5353 53 40" 7]
  by (simp add: add_packet_fields outgoing_prefix_def startswith_def dict_get_def size_of_def
        make_packet_data_def aggregator_init_def)

section \<open>Categorisation: properties\<close>

lemma str_in_sublist: "str_in k s \<longleftrightarrow> sublist k s"
  by (induction s) (auto simp: startswith_def sublist_Cons_right)

lemma any_keyword_iff: "any_keyword ks h \<longleftrightarrow> (\<exists>k \<in> set ks. str_in k h)"
  by (induction ks) auto

lemma first_category_find:
  "first_category table h =
     (case find (\<lambda>(c, ks). \<exists>k \<in> set ks. str_in k h) table of
        None \<Rightarrow> ''Other''
      | Some (c, ks) \<Rightarrow> c)"
  by (induction table h rule: first_category.induct) (auto simp: any_keyword_iff)

lemma first_category_none:
  "\<forall>(c, ks) \<in> set table. \<forall>k \<in> set ks. \<not> str_in k h \<Longrightarrow> first_category table h = ''Other''"
  by (induction table h rule: first_category.induct) (auto simp: any_keyword_iff)

lemma lower_char_idem: "lower_char (lower_char c) = lower_char c"
  by (simp add: lower_char_def)

lemma lower_idem: "lower (lower h) = lower h"
  by (simp add: lower_def lower_char_idem)

lemma lower_Nil_iff: "lower h = [] \<longleftrightarrow> h = []"
  by (simp add: lower_def)

text \<open>
  C4. \<open>categorize_domain\<close> is a function of the category table and the host name alone;
  a missing or empty host name gives "Other"; so does a host name whose lower-case form
  contains no keyword of the table; host names that differ only in letter case get the
  same category; and otherwise the result is the first category, in table order, one of
  whose keywords is a substring of the lower-cased host name.
\<close>

theorem C4_categorize_domain:
  "categorize_domain self None = ''Other''
   \<and> categorize_domain self (Some []) = ''Other''
   \<and> ((\<forall>(c, ks) \<in> set (category_keywords self). \<forall>k \<in> set ks. \<not> sublist k (lower h))
        \<longrightarrow> categorize_domain self (Some h) = ''Other'')
   \<and> (lower h = lower h' \<longrightarrow>
        categorize_domain self (Some h) = categorize_domain self (Some h'))
   \<and> (h \<noteq> [] \<longrightarrow>
        categorize_domain self (Some h) =
          (case find (\<lambda>(c, ks). \<exists>k \<in> set ks. sublist k (lower h)) (category_keywords self) of
             None \<Rightarrow> ''Other''
           | Some (c, ks) \<Rightarrow> c))
   \<and> (category_keywords self = category_keywords self' \<longrightarrow>
        categorize_domain self hostname = categorize_domain self' hostname)"
proof -
  have none: "(\<forall>(c, ks) \<in> set (category_keywords self). \<forall>k \<in> set ks. \<not> sublist k (lower h))
              \<longrightarrow> categorize_domain self (Some h) = ''Other''"
    by (simp add: categorize_domain_def first_category_none str_in_sublist)
  have "case": "lower h = lower h' \<longrightarrow>
              categorize_domain self (Some h) = categorize_domain self (Some h')"
  proof
    assume eq: "lower h = lower h'"
    then have "h = [] \<longleftrightarrow> h' = []"
      by (metis lower_Nil_iff)
    with eq show "categorize_domain self (Some h) = categorize_domain self (Some h')"
      by (simp add: categorize_domain_def)
  qed
  have first: "h \<noteq> [] \<longrightarrow>
        categorize_domain self (Some h) =
          (case find (\<lambda>(c, ks). \<exists>k \<in> set ks. sublist k (lower h)) (category_keywords self) of
             None \<Rightarrow> ''Other''
           | Some (c, ks) \<Rightarrow> c)"
    by (simp add: categorize_domain_def first_category_find str_in_sublist)
  have table: "category_keywords self = category_keywords self' \<longrightarrow>
        categorize_domain self hostname = categorize_domain self' hostname"
    by (cases hostname) (simp_all add: categorize_domain_def)
  show ?thesis
    using none "case" first table by (simp add: categorize_domain_def)
qed

theorem C4_categorize_domain_witness:
  "\<not> (\<exists>(c, ks) \<in> set (category_keywords DNSResolver_init).
       \<exists>k \<in> set ks. sublist k (lower ''example.org''))
   \<and> categorize_domain DNSResolver_init (Some ''example.org'') = ''Other''
   \<and> lower ''WWW.Twitch.TV'' = lower ''www.twitch.tv''
   \<and> categorize_domain DNSResolver_init (Some ''WWW.Twitch.TV'')
       = categorize_domain DNSResolver_init (Some ''www.twitch.tv'')
   \<and> ''WWW.Twitch.TV'' \<noteq> []
   \<and> categorize_domain DNSResolver_init (Some ''WWW.Twitch.TV'') = ''Streaming''
   \<and> category_keywords DNSResolver_init
       = category_keywords (DNSResolver_init\<lparr>timeout := 5\<rparr>)
   \<and> categorize_domain DNSResolver_init None
       = categorize_domain (DNSResolver_init\<lparr>timeout := 5\<rparr>) None"
proof -
  note defs = str_in_sublist [symmetric] DNSResolver_init_def CATEGORY_KEYWORDS_def
    lower_def lower_char_def startswith_def
  have none: "\<forall>(c, ks) \<in> set (category_keywords DNSResolver_init).
                \<forall>k \<in> set ks. \<not> sublist k (lower ''example.org'')"
    by (simp add: defs)
  have low: "lower ''WWW.Twitch.TV'' = lower ''www.twitch.tv''"
    by (simp add: lower_def lower_char_def)
  have ne: "''WWW.Twitch.TV'' \<noteq> []"
    by simp
  have first: "(case find (\<lambda>(c, ks). \<exists>k \<in> set ks. sublist k (lower ''WWW.Twitch.TV''))
                       (category_keywords DNSResolver_init) of
                  None \<Rightarrow> ''Other''
                | Some (c, ks) \<Rightarrow> c) = ''Streaming''"
    by (simp add: defs)
  have table: "category_keywords DNSResolver_init
                 = category_keywords (DNSResolver_init\<lparr>timeout := 5\<rparr>)"
    by simp
  note c3 = C4_categorize_domain [THEN conjunct2, THEN conjunct2, THEN conjunct1]
  note c4 = C4_categorize_domain [THEN conjunct2, THEN conjunct2, THEN conjunct2,
    THEN conjunct1]
  note c5 = C4_categorize_domain [THEN conjunct2, THEN conjunct2, THEN conjunct2,
    THEN conjunct2, THEN conjunct1]
  note c6 = C4_categorize_domain [THEN conjunct2, THEN conjunct2, THEN conjunct2,
    THEN conjunct2, THEN conjunct2]
  have none': "\<not> (\<exists>(c, ks) \<in> set (category_keywords DNSResolver_init).
                 \<exists>k \<in> set ks. sublist k (lower ''example.org''))"
    using none by blast
  show ?thesis
    using none' c3 [THEN mp, OF none] low c4 [THEN mp, OF low] ne
      trans [OF c5 [THEN mp, OF ne] first] table c6 [THEN mp, OF table]
    by (intro conjI)
qed

section \<open>Reverse lookup: properties\<close>

lemma resolve_ip_wrapped_cases:
  "resolve_ip_wrapped gethostbyaddr self ip =
     (case gethostbyaddr ip of Inl e \<Rightarrow> Inr None | Inr (h, al, ad) \<Rightarrow> Inr (Some h))"
  by (simp add: resolve_ip_wrapped_def split: sum.splits)

lemma resolve_ip_returns: "\<exists>r. fst (resolve_ip gethostbyaddr self ip cache) = Inr r"
  by (simp add: resolve_ip_def lru_cache_def resolve_ip_wrapped_cases
      split: sum.splits option.splits prod.splits)

lemma resolve_ips_return: "\<forall>res \<in> set (resolve_ips gethostbyaddr self ips cache). \<exists>r. res = Inr r"
proof (induction ips arbitrary: cache)
  case Nil
  show ?case by simp
next
  case (Cons ip ips)
  obtain res cache' where step: "resolve_ip gethostbyaddr self ip cache = (res, cache')"
    by (cases "resolve_ip gethostbyaddr self ip cache")
  from resolve_ip_returns [of gethostbyaddr self ip cache] step
  have "\<exists>r. res = Inr r" by simp
  with Cons.IH [of cache'] step show ?case by simp
qed

text \<open>
  C6. Whatever the lookup does for an address (a host entry or any exception),
  \<open>resolve_ip\<close> returns a value and raises nothing: on a cache miss the host name of a
  successful lookup, \<open>None\<close> for a lookup that raised; on a cache hit the stored result.
  The same holds for every call of a run of calls.
\<close>

theorem C6_resolve_ip_never_raises:
  "(\<exists>r. fst (resolve_ip gethostbyaddr self ip cache) = Inr r)
   \<and> (map_of cache ip = None \<longrightarrow>
        (\<forall>h al ad. gethostbyaddr ip = Inr (h, al, ad) \<longrightarrow>
           fst (resolve_ip gethostbyaddr self ip cache) = Inr (Some h))
        \<and> (\<forall>e. gethostbyaddr ip = Inl e \<longrightarrow>
           fst (resolve_ip gethostbyaddr self ip cache) = Inr None))
   \<and> (\<forall>r. map_of cache ip = Some r \<longrightarrow> fst (resolve_ip gethostbyaddr self ip cache) = Inr r)
   \<and> (\<forall>res \<in> set (resolve_ips gethostbyaddr self ips cache). \<exists>r. res = Inr r)"
proof -
  have miss: "map_of cache ip = None \<longrightarrow>
        (\<forall>h al ad. gethostbyaddr ip = Inr (h, al, ad) \<longrightarrow>
           fst (resolve_ip gethostbyaddr self ip cache) = Inr (Some h))
        \<and> (\<forall>e. gethostbyaddr ip = Inl e \<longrightarrow>
           fst (resolve_ip gethostbyaddr self ip cache) = Inr None)"
    by (simp add: resolve_ip_def lru_cache_def resolve_ip_wrapped_cases MAX_CACHED_DNS_def)
  have hit: "\<forall>r. map_of cache ip = Some r \<longrightarrow>
        fst (resolve_ip gethostbyaddr self ip cache) = Inr r"
    by (simp add: resolve_ip_def lru_cache_def MAX_CACHED_DNS_def)
  show ?thesis
    using resolve_ip_returns [of gethostbyaddr self ip cache] miss hit
      resolve_ips_return [of gethostbyaddr self ips cache]
    by (intro conjI)
qed

theorem C6_resolve_ip_witness:
  "map_of ([] :: (string \<times> string option) list) ''10.9.8.7'' = None
   \<and> fst (resolve_ip
        (\<lambda>ip. if ip = ''8.8.8.8'' then Inr (''dns.google'', [], [''8.8.8.8'']) else Inl Herror)
        DNSResolver_init ''10.9.8.7'' []) = Inr None
   \<and> fst (resolve_ip
        (\<lambda>ip. if ip = ''8.8.8.8'' then Inr (''dns.google'', [], [''8.8.8.8'']) else Inl Herror)
        DNSResolver_init ''8.8.8.8'' []) = Inr (Some ''dns.google'')
   \<and> map_of [(''8.8.8.8'', Some ''dns.google'')] ''8.8.8.8'' = Some (Some ''dns.google'')
   \<and> fst (resolve_ip (\<lambda>ip. Inl OtherException) DNSResolver_init ''8.8.8.8''
        [(''8.8.8.8'', Some ''dns.google'')]) = Inr (Some ''dns.google'')"
proof -
  let ?g = "\<lambda>ip. if ip = ''8.8.8.8'' then Inr (''dns.google'', [], [''8.8.8.8''])
                   else (Inl Herror :: exn + hostent)"
  let ?f = "\<lambda>ip :: string. (Inl OtherException :: exn + hostent)"
  have empty: "map_of ([] :: (string \<times> string option) list) ''10.9.8.7'' = None"
    by simp
  have cached: "map_of [(''8.8.8.8'', Some ''dns.google'')] ''8.8.8.8'' = Some (Some ''dns.google'')"
    by simp
  note miss = C6_resolve_ip_never_raises [THEN conjunct2, THEN conjunct1]
  note hit = C6_resolve_ip_never_raises [THEN conjunct2, THEN conjunct2, THEN conjunct1]
  have r1: "fst (resolve_ip ?g DNSResolver_init ''10.9.8.7'' []) = Inr None"
    using miss [of "[]" "''10.9.8.7''" ?g DNSResolver_init] by simp
  have r2: "fst (resolve_ip ?g DNSResolver_init ''8.8.8.8'' []) = Inr (Some ''dns.google'')"
    using miss [of "[]" "''8.8.8.8''" ?g DNSResolver_init] by simp
  have r3: "fst (resolve_ip ?f DNSResolver_init ''8.8.8.8''
              [(''8.8.8.8'', Some ''dns.google'')]) = Inr (Some ''dns.google'')"
    using hit [of "[(''8.8.8.8'', Some ''dns.google'')]" "''8.8.8.8''" ?f DNSResolver_init]
    by simp
  show ?thesis
    using empty r1 r2 cached r3 by (intro conjI)
qed

section \<open>Top applications in the database: properties\<close>














section \<open>Process lookup: properties\<close>







text \<open>An executable missing or not permitted (\<open>OSError\<close>) is not among the caught exceptions.\<close>

lemma find_process_with_lsof_uncaught:
  "run_lsof port = Inl OSError \<Longrightarrow> find_process_with_lsof run_lsof port = Inl OSError"
  by (simp add: find_process_with_lsof_def lsof_try_def)


lemma find_process_by_port_counter:
  "refresh_counter (snd (find_process_by_port views run_lsof lp rip rport self)) =
     (if refresh_interval self \<le> refresh_counter self + 1 then 0 else refresh_counter self + 1)"
  by (simp add: find_process_by_port_def periodic_refresh_def refresh_if_empty_def)

lemma find_process_by_port_result:
  "fst (find_process_by_port views run_lsof lp rip rport self) =
     cache_or_lsof run_lsof lp rip rport
       (connection_cache (snd (find_process_by_port views run_lsof lp rip rport self)))"
  by (simp add: find_process_by_port_def split: prod.splits)






lemma find_process_by_port_uncaught:
  "connection_cache (snd (find_process_by_port views run_lsof lp rip rport self)) = [] \<Longrightarrow>
   run_lsof lp = Inl OSError \<Longrightarrow>
   fst (find_process_by_port views run_lsof lp rip rport self) = Inl OSError"
  by (simp add: find_process_by_port_result cache_or_lsof_def exact_match_def port_match_def
      find_process_with_lsof_uncaught split: option.splits)




end
